theory Spec2Isabelle
  imports Main "HOL-Library.Sublist" "HOL-Library.Multiset"
begin

section \<open>Strings and arrays of the host language\<close>

text \<open>
  Strings are \<^typ>\<open>string\<close>. The library functions the two components call are
  written out on lists: \<open>toLowerCase\<close> (on the ASCII letters; every other character is
  left as it is), \<open>includes\<close> on strings (a contiguous substring test), \<open>split\<close> with a
  one-character separator, \<open>join\<close>, \<open>slice(0, n)\<close> and \<open>sort(comparefn)\<close>.
\<close>

definition toLowerCase_char :: "char \<Rightarrow> char" where
  "toLowerCase_char c =
     (let n = (of_char c :: nat) in if 65 \<le> n \<and> n \<le> 90 then char_of (n + 32) else c)"

definition toLowerCase :: "string \<Rightarrow> string" where
  "toLowerCase s = map toLowerCase_char s"

text \<open>\<open>s.includes(q)\<close>: \<open>q\<close> occurs in \<open>s\<close> at some position.\<close>

fun includes_str :: "string \<Rightarrow> string \<Rightarrow> bool" where
  "includes_str [] q = (q = [])"
| "includes_str (c # cs) q = (prefix q (c # cs) \<or> includes_str cs q)"

text \<open>\<open>s.split(sep)\<close>: the result is never empty; \<open>"".split(",")\<close> is \<open>[""]\<close>.\<close>

fun split :: "char \<Rightarrow> string \<Rightarrow> string list" where
  "split sep [] = [[]]"
| "split sep (c # cs) =
     (if c = sep then [] # split sep cs
      else (case split sep cs of [] \<Rightarrow> [[c]] | w # ws \<Rightarrow> (c # w) # ws))"

text \<open>\<open>a.join(sep)\<close>.\<close>

fun join :: "string \<Rightarrow> string list \<Rightarrow> string" where
  "join sep [] = []"
| "join sep [x] = x"
| "join sep (x # y # ys) = x @ sep @ join sep (y # ys)"

text \<open>
  \<open>a.sort(comparefn)\<close>: the sort of the language is stable, and \<open>x\<close> is placed after
  \<open>y\<close> exactly when \<open>comparefn(x, y) > 0\<close>. It is written as the insertion of each
  element, from the last to the first, into the sorted rest.
\<close>

fun insert_by :: "('a \<Rightarrow> 'a \<Rightarrow> int) \<Rightarrow> 'a \<Rightarrow> 'a list \<Rightarrow> 'a list" where
  "insert_by cmp x [] = [x]"
| "insert_by cmp x (y # ys) = (if cmp x y > 0 then y # insert_by cmp x ys else x # y # ys)"

definition array_sort :: "('a \<Rightarrow> 'a \<Rightarrow> int) \<Rightarrow> 'a list \<Rightarrow> 'a list" where
  "array_sort cmp xs = foldr (insert_by cmp) xs []"

section \<open>The query-state store\<close>

text \<open>
  \<open>URLSearchParams\<close> is an ordered list of name and value pairs. \<open>get\<close> reads the first
  pair of a name, \<open>delete\<close> removes every pair of a name, and \<open>set\<close> overwrites the first
  pair of a name and removes the others, or appends a pair when there is none.
\<close>

type_synonym URLSearchParams = "(string \<times> string) list"

fun params_get :: "URLSearchParams \<Rightarrow> string \<Rightarrow> string option" where
  "params_get [] key = None"
| "params_get ((n, v) # ps) key = (if n = key then Some v else params_get ps key)"

fun params_delete :: "URLSearchParams \<Rightarrow> string \<Rightarrow> URLSearchParams" where
  "params_delete [] key = []"
| "params_delete ((n, v) # ps) key =
     (if n = key then params_delete ps key else (n, v) # params_delete ps key)"

fun params_set :: "URLSearchParams \<Rightarrow> string \<Rightarrow> string \<Rightarrow> URLSearchParams" where
  "params_set [] key v = [(key, v)]"
| "params_set ((n, w) # ps) key v =
     (if n = key then (key, v) # params_delete ps key else (n, w) # params_set ps key v)"

text \<open>
  The argument of \<open>updateParam\<close>: a string, an array of strings, or nothing
  (\<open>value?: string | string[]\<close>).
\<close>

datatype param_value = Undefined | Str string | Arr "string list"

text \<open>\<open>!value\<close>: only \<open>undefined\<close> and the empty string are falsy; every array is truthy.\<close>

fun falsy :: "param_value \<Rightarrow> bool" where
  "falsy Undefined = True"
| "falsy (Str s) = (s = [])"
| "falsy (Arr a) = False"

fun is_empty_array :: "param_value \<Rightarrow> bool" where
  "is_empty_array (Arr a) = (length a = 0)"
| "is_empty_array v = False"

fun stored :: "param_value \<Rightarrow> string" where
  "stored (Arr a) = join '','' a"
| "stored (Str s) = s"
| "stored Undefined = []"

definition updateParam :: "URLSearchParams \<Rightarrow> string \<Rightarrow> param_value \<Rightarrow> URLSearchParams" where
  "updateParam searchParams key v =
     (if falsy v \<or> is_empty_array v then params_delete searchParams key
      else params_set searchParams key (stored v))"

text \<open>\<open>searchParams.get(key) || ""\<close>: a missing key reads as the empty string.\<close>

definition get_or_empty :: "URLSearchParams \<Rightarrow> string \<Rightarrow> string" where
  "get_or_empty searchParams key =
     (case params_get searchParams key of None \<Rightarrow> [] | Some s \<Rightarrow> s)"

text \<open>\<open>searchParams.get("specialty")?.split(",") || []\<close>.\<close>

definition specs_of :: "URLSearchParams \<Rightarrow> string list" where
  "specs_of searchParams =
     (case params_get searchParams ''specialty'' of None \<Rightarrow> [] | Some s \<Rightarrow> split CHR '','' s)"

section \<open>Doctor records and the query state\<close>

text \<open>
  A doctor as the two components read it. The list comes from a remote JSON payload, so
  the \<open>speciality\<close> member of a record may be missing or may hold something that is not
  an array; the elements of an array are the strings the interface declares. The
  members \<open>experience\<close> and \<open>fees\<close> are the numbers the interface declares, taken as
  integers, so that the sign of a difference orders them. The display-only members
  (\<open>qualification\<close>, \<open>hospital\<close>, \<open>location\<close>, \<open>languages\<close>) are read by neither
  engine and are left out.
\<close>

datatype speciality_field = Missing | NotArray | IsArray "string list"

record Doctor =
  name :: string
  mode :: string
  speciality :: speciality_field
  experience :: int
  fees :: int

definition SPECIALTIES :: "string list" where
  "SPECIALTIES =
     [''General Physician'', ''Dentist'', ''Dermatologist'', ''Paediatrician'',
      ''Gynaecologist'', ''ENT'', ''Diabetologist'', ''Cardiologist'',
      ''Physiotherapist'', ''Endocrinologist'', ''Orthopaedic'', ''Ophthalmologist'',
      ''Gastroenterologist'', ''Pulmonologist'', ''Psychiatrist'', ''Urologist'',
      ''Dietitian/Nutritionist'', ''Psychologist'', ''Sexologist'', ''Nephrologist'',
      ''Neurologist'', ''Oncologist'', ''Ayurveda'', ''Homeopath'']"

text \<open>
  The values the engines read: the name query, the mode of consultation, the selected
  specialties and the sort key. In \<open>src/src/App.tsx\<close> all four come from the URL; in the
  second variant the name query is the component's own \<open>query\<close> state.
\<close>

record query_state =
  nameQuery :: string
  moc :: string
  specs :: "string list"
  sort_by :: string

definition query_of_params :: "URLSearchParams \<Rightarrow> query_state" where
  "query_of_params searchParams =
     \<lparr>nameQuery = get_or_empty searchParams ''name'',
      moc = get_or_empty searchParams ''moc'',
      specs = specs_of searchParams,
      sort_by = get_or_empty searchParams ''sort''\<rparr>"

definition query_of_state :: "string \<Rightarrow> URLSearchParams \<Rightarrow> query_state" where
  "query_of_state query searchParams =
     \<lparr>nameQuery = query,
      moc = get_or_empty searchParams ''moc'',
      specs = specs_of searchParams,
      sort_by = get_or_empty searchParams ''sort''\<rparr>"

section \<open>Errors and fallible array methods\<close>

text \<open>
  Calling an array method on a value that is not an array throws a \<open>TypeError\<close>. A
  callback that throws aborts \<open>filter\<close> and \<open>every\<close> at that element; \<open>every\<close> stops at
  the first element whose test is false.
\<close>

datatype error = TypeError

fun as_array :: "speciality_field \<Rightarrow> error + string list" where
  "as_array (IsArray l) = Inr l"
| "as_array v = Inl TypeError"

fun isArray :: "speciality_field \<Rightarrow> bool" where
  "isArray (IsArray l) = True"
| "isArray v = False"

fun filterE :: "('a \<Rightarrow> error + bool) \<Rightarrow> 'a list \<Rightarrow> error + 'a list" where
  "filterE p [] = Inr []"
| "filterE p (x # xs) =
     (case p x of
        Inl e \<Rightarrow> Inl e
      | Inr b \<Rightarrow> (case filterE p xs of
                   Inl e \<Rightarrow> Inl e
                 | Inr ys \<Rightarrow> Inr (if b then x # ys else ys)))"

fun everyE :: "('a \<Rightarrow> error + bool) \<Rightarrow> 'a list \<Rightarrow> error + bool" where
  "everyE p [] = Inr True"
| "everyE p (x # xs) =
     (case p x of
        Inl e \<Rightarrow> Inl e
      | Inr b \<Rightarrow> if b then everyE p xs else Inr False)"

section \<open>The filter and sort engine\<close>

definition name_matches :: "string \<Rightarrow> Doctor \<Rightarrow> bool" where
  "name_matches q d = includes_str (toLowerCase (name d)) (toLowerCase q)"

text \<open>The comparison functions of the two sort keys.\<close>

definition by_fees :: "Doctor \<Rightarrow> Doctor \<Rightarrow> int" where
  "by_fees a b = fees a - fees b"

definition by_experience :: "Doctor \<Rightarrow> Doctor \<Rightarrow> int" where
  "by_experience a b = experience b - experience a"

text \<open>
  \<open>src/src/App.tsx\<close>, \<open>filtered\<close>: the mode is compared in lower case, and a record
  passes the specialty filter when \<open>d.speciality.some((s) => specs.includes(s))\<close>, which
  is called without a test that \<open>d.speciality\<close> is an array.
\<close>

definition speciality_some :: "string list \<Rightarrow> Doctor \<Rightarrow> error + bool" where
  "speciality_some sp d =
     (case as_array (speciality d) of
        Inl e \<Rightarrow> Inl e
      | Inr l \<Rightarrow> Inr (list_ex (\<lambda>s. s \<in> set sp) l))"

definition filtered :: "Doctor list \<Rightarrow> query_state \<Rightarrow> error + Doctor list" where
  "filtered doctors Q =
     (let result = doctors;
          result = (if nameQuery Q \<noteq> [] then filter (name_matches (nameQuery Q)) result
                    else result);
          result = (if moc Q \<noteq> []
                    then filter (\<lambda>d. toLowerCase (mode d) = toLowerCase (moc Q)) result
                    else result)
      in case (if length (specs Q) \<noteq> 0 then filterE (speciality_some (specs Q)) result
               else Inr result) of
           Inl e \<Rightarrow> Inl e
         | Inr result \<Rightarrow>
             Inr (if sort_by Q = ''fees'' then array_sort by_fees result
                  else if sort_by Q = ''experience'' then array_sort by_experience result
                  else result))"

text \<open>
  The second variant, the filter effect of \<open>App\<close>: the mode is compared with \<open>===\<close>, and
  a record passes the specialty filter when
  \<open>Array.isArray(d.speciality) && specs.every((s) => d.speciality.includes(s))\<close>.
\<close>

definition speciality_every :: "string list \<Rightarrow> Doctor \<Rightarrow> error + bool" where
  "speciality_every sp d =
     (if isArray (speciality d)
      then everyE (\<lambda>s. case as_array (speciality d) of
                          Inl e \<Rightarrow> Inl e
                        | Inr l \<Rightarrow> Inr (s \<in> set l)) sp
      else Inr False)"

definition filter_effect :: "Doctor list \<Rightarrow> query_state \<Rightarrow> error + Doctor list" where
  "filter_effect data Q =
     (let result = data;
          result = (if nameQuery Q \<noteq> [] then filter (name_matches (nameQuery Q)) result
                    else result);
          result = (if moc Q \<noteq> [] then filter (\<lambda>d. mode d = moc Q) result else result)
      in case (if length (specs Q) \<noteq> 0 then filterE (speciality_every (specs Q)) result
               else Inr result) of
           Inl e \<Rightarrow> Inl e
         | Inr result \<Rightarrow>
             (let result = (if sort_by Q = ''fees'' then array_sort by_fees result
                            else result);
                  result = (if sort_by Q = ''experience''
                            then array_sort by_experience result else result)
              in Inr result))"

section \<open>The autocomplete engine\<close>

text \<open>\<open>src/src/App.tsx\<close>, \<open>suggestions\<close>.\<close>

definition suggestions :: "Doctor list \<Rightarrow> string \<Rightarrow> Doctor list" where
  "suggestions doctors q =
     (if q = [] then [] else take 3 (filter (name_matches q) doctors))"

text \<open>
  The second variant, \<open>handleSearch\<close>: it stores the typed value as the query and
  replaces the suggestions; the result is the pair of the two.
\<close>

definition handleSearch :: "Doctor list \<Rightarrow> string \<Rightarrow> string \<times> Doctor list" where
  "handleSearch data v =
     (if v = [] then (v, []) else (v, take 3 (filter (name_matches v) data)))"

section \<open>The criteria in the specification's words\<close>

text \<open>
  The two readings of the specialty criterion: a record has \<^emph>\<open>any\<close> selected specialty,
  or it has \<^emph>\<open>all\<close> of them. A speciality that is missing or not a list has neither.
\<close>

fun has_any :: "string list \<Rightarrow> speciality_field \<Rightarrow> bool" where
  "has_any sp (IsArray l) = (\<exists>s\<in>set l. s \<in> set sp)"
| "has_any sp v = False"

fun has_all :: "string list \<Rightarrow> speciality_field \<Rightarrow> bool" where
  "has_all sp (IsArray l) = (set sp \<subseteq> set l)"
| "has_all sp v = False"

text \<open>
  The tests of one record in each variant, and the order the sort key asks for; the
  lemmas below relate the two engines to them.
\<close>

definition name_ok :: "query_state \<Rightarrow> Doctor \<Rightarrow> bool" where
  "name_ok Q d =
     (nameQuery Q = [] \<or> sublist (toLowerCase (nameQuery Q)) (toLowerCase (name d)))"

definition mode_ok_ci :: "query_state \<Rightarrow> Doctor \<Rightarrow> bool" where
  "mode_ok_ci Q d = (moc Q = [] \<or> toLowerCase (mode d) = toLowerCase (moc Q))"

definition mode_ok_exact :: "query_state \<Rightarrow> Doctor \<Rightarrow> bool" where
  "mode_ok_exact Q d = (moc Q = [] \<or> mode d = moc Q)"

definition ordered :: "query_state \<Rightarrow> Doctor list \<Rightarrow> Doctor list" where
  "ordered Q xs =
     (if sort_by Q = ''fees'' then sort_key fees xs
      else if sort_by Q = ''experience'' then sort_key (\<lambda>d. - experience d) xs
      else xs)"

definition selected_any :: "query_state \<Rightarrow> Doctor \<Rightarrow> bool" where
  "selected_any Q d =
     (name_ok Q d \<and> mode_ok_ci Q d \<and> (specs Q = [] \<or> has_any (specs Q) (speciality d)))"

definition selected_all :: "query_state \<Rightarrow> Doctor \<Rightarrow> bool" where
  "selected_all Q d =
     (name_ok Q d \<and> mode_ok_exact Q d \<and> (specs Q = [] \<or> has_all (specs Q) (speciality d)))"

text \<open>A speciality that is a list of terms of the fixed vocabulary.\<close>

fun from_vocabulary :: "speciality_field \<Rightarrow> bool" where
  "from_vocabulary (IsArray l) = (set l \<subseteq> set SPECIALTIES)"
| "from_vocabulary v = False"

section \<open>Example records\<close>

definition alice :: Doctor where
  "alice = \<lparr>name = ''Alice'', mode = ''Video Consult'', speciality = IsArray [''ENT''],
            experience = 2, fees = 500\<rparr>"

definition bob :: Doctor where
  "bob = \<lparr>name = ''Bob'', mode = ''In Clinic'', speciality = IsArray [''Dentist'', ''ENT''],
          experience = 9, fees = 100\<rparr>"

definition amanda :: Doctor where
  "amanda = \<lparr>name = ''Amanda'', mode = ''video consult'', speciality = Missing,
             experience = 9, fees = 500\<rparr>"

definition carl :: Doctor where
  "carl = \<lparr>name = ''Carl'', mode = ''In Clinic'', speciality = IsArray [''Dentist''],
           experience = 2, fees = 300\<rparr>"

text \<open>A query state with no filter set and the sort key \<open>s\<close>.\<close>

definition no_filter :: "string \<Rightarrow> query_state" where
  "no_filter s = \<lparr>nameQuery = [], moc = [], specs = [], sort_by = s\<rparr>"

section \<open>Properties of the store\<close>

lemma params_get_delete_same: "params_get (params_delete ps key) key = None"
  by (induction ps key rule: params_delete.induct) simp_all

lemma params_get_delete_other:
  "k2 \<noteq> key \<Longrightarrow> params_get (params_delete ps key) k2 = params_get ps k2"
  by (induction ps key rule: params_delete.induct) simp_all

lemma params_get_set_same: "params_get (params_set ps key v) key = Some v"
  by (induction ps key v rule: params_set.induct) simp_all

lemma params_get_set_other:
  "k2 \<noteq> key \<Longrightarrow> params_get (params_set ps key v) k2 = params_get ps k2"
  by (induction ps key v rule: params_set.induct) (simp_all add: params_get_delete_other)

text \<open>
  C8: for every state of the store, \<open>update(key, "")\<close> followed by \<open>get(key)\<close> reads
  empty, because the key is removed, as it is for an empty collection; \<open>update(key, v)\<close>
  with a non-empty string \<open>v\<close> followed by \<open>get(key)\<close> reads \<open>v\<close>; and a non-empty
  collection is stored as its elements joined with a comma.
\<close>

theorem store_update_get:
  "get_or_empty (updateParam searchParams key (Str [])) key = []
   \<and> params_get (updateParam searchParams key (Str [])) key = None
   \<and> params_get (updateParam searchParams key (Arr [])) key = None
   \<and> (v \<noteq> [] \<longrightarrow> params_get (updateParam searchParams key (Str v)) key = Some v
        \<and> get_or_empty (updateParam searchParams key (Str v)) key = v)
   \<and> (a \<noteq> [] \<longrightarrow> params_get (updateParam searchParams key (Arr a)) key = Some (join '','' a))"
  by (simp add: updateParam_def get_or_empty_def params_get_delete_same params_get_set_same)

theorem store_update_get_witness:
  "params_get (updateParam [(''moc'', ''In Clinic''), (''sort'', ''fees'')] ''moc'' (Str [])) ''moc''
     = None
   \<and> get_or_empty (updateParam [(''moc'', ''In Clinic''), (''sort'', ''fees'')] ''moc''
         (Str ''Video Consult'')) ''moc'' = ''Video Consult''
   \<and> params_get (updateParam [(''moc'', ''In Clinic'')] ''specialty''
         (Arr [''Dentist'', ''ENT''])) ''specialty'' = Some ''Dentist,ENT''"
  using store_update_get [of "[(''moc'', ''In Clinic''), (''sort'', ''fees'')]" "''moc''"
      "''Video Consult''" "[''Dentist'', ''ENT'']"]
    store_update_get [of "[(''moc'', ''In Clinic'')]" "''specialty''"
      "''Video Consult''" "[''Dentist'', ''ENT'']"]
  by simp

text \<open>
  C9: for every state of the store and every two distinct keys \<open>k1\<close> and \<open>k2\<close>,
  \<open>update(k1, v)\<close> leaves what \<open>get(k2)\<close> reads unchanged, whatever \<open>v\<close> is.
\<close>

theorem store_update_frame:
  "k1 \<noteq> k2 \<Longrightarrow> params_get (updateParam searchParams k1 v) k2 = params_get searchParams k2"
  by (simp add: updateParam_def params_get_delete_other params_get_set_other)

theorem store_update_frame_witness:
  "params_get (updateParam [(''moc'', ''In Clinic''), (''sort'', ''fees'')] ''moc''
       (Str ''Video Consult'')) ''sort'' = Some ''fees''
   \<and> params_get (updateParam [(''moc'', ''In Clinic''), (''sort'', ''fees'')] ''sort''
       Undefined) ''moc'' = Some ''In Clinic''"
  using store_update_frame [of "''moc''" "''sort''"
      "[(''moc'', ''In Clinic''), (''sort'', ''fees'')]" "Str ''Video Consult''"]
    store_update_frame [of "''sort''" "''moc''"
      "[(''moc'', ''In Clinic''), (''sort'', ''fees'')]" Undefined]
  by simp

section \<open>Properties of the engines\<close>

lemma includes_str_sublist: "includes_str s q = sublist q s"
  by (induction s) (simp_all add: sublist_Cons_right)

lemma name_matches_sublist:
  "name_matches q = (\<lambda>d. sublist (toLowerCase q) (toLowerCase (name d)))"
  by (rule ext) (simp add: name_matches_def includes_str_sublist)

lemma split_not_Nil: "split sep s \<noteq> []"
  by (induction s) (auto split: list.splits)

lemma insert_by_fees: "insert_by by_fees x ys = insort_key fees x ys"
  by (induction ys) (auto simp: by_fees_def)

lemma array_sort_by_fees: "array_sort by_fees xs = sort_key fees xs"
  by (induction xs) (simp_all add: array_sort_def insert_by_fees)

lemma insert_by_experience:
  "insert_by by_experience x ys = insort_key (\<lambda>d. - experience d) x ys"
  by (induction ys) (auto simp: by_experience_def)

lemma array_sort_by_experience:
  "array_sort by_experience xs = sort_key (\<lambda>d. - experience d) xs"
  by (induction xs) (simp_all add: array_sort_def insert_by_experience)

lemma filterE_pure: "filterE (\<lambda>x. Inr (P x)) xs = Inr (filter P xs)"
  by (induction xs) simp_all

lemma everyE_pure: "everyE (\<lambda>x. Inr (P x)) xs = Inr (list_all P xs)"
  by (induction xs) simp_all

lemma speciality_every_eq: "speciality_every sp d = Inr (has_all sp (speciality d))"
  by (cases "speciality d") (auto simp: speciality_every_def everyE_pure list_all_iff)

lemma speciality_some_eq:
  "speciality_some sp d =
     (if isArray (speciality d) then Inr (has_any sp (speciality d)) else Inl TypeError)"
  by (cases "speciality d") (auto simp: speciality_some_def list_ex_iff)

lemma filterE_speciality_some:
  "filterE (speciality_some sp) xs =
     (if list_all (\<lambda>d. isArray (speciality d)) xs
      then Inr (filter (\<lambda>d. has_any sp (speciality d)) xs) else Inl TypeError)"
  by (induction xs) (auto simp: speciality_some_eq)

lemma filterE_speciality_every:
  "filterE (speciality_every sp) xs = Inr (filter (\<lambda>d. has_all sp (speciality d)) xs)"
  by (induction xs) (simp_all add: speciality_every_eq)

lemma filter_effect_eq:
  "filter_effect D Q =
     Inr (ordered Q (filter (selected_all Q) D))"
  by (auto simp: filter_effect_def ordered_def name_ok_def mode_ok_exact_def selected_all_def [abs_def]
      name_matches_sublist filterE_speciality_every array_sort_by_fees
      array_sort_by_experience conj_ac)

lemma filtered_eq:
  "filtered D Q =
     (if specs Q \<noteq> [] \<and> \<not> list_all (\<lambda>d. isArray (speciality d))
                                (filter (\<lambda>d. name_ok Q d \<and> mode_ok_ci Q d) D)
      then Inl TypeError
      else Inr (ordered Q (filter (selected_any Q) D)))"
  by (auto simp: filtered_def ordered_def name_ok_def mode_ok_ci_def selected_any_def [abs_def]
      name_matches_sublist filterE_speciality_some array_sort_by_fees
      array_sort_by_experience conj_ac)


lemma set_ordered: "set (ordered Q xs) = set xs"
  by (simp add: ordered_def)

lemma mset_ordered: "mset (ordered Q xs) = mset xs"
  by (simp add: ordered_def)

lemma ordered_unsorted: "ordered (Q\<lparr>sort_by := []\<rparr>) xs = xs"
  by (simp add: ordered_def)

lemma sorted_desc_iff:
  "sorted (map (\<lambda>d. - experience d) xs) = sorted_wrt (\<lambda>a b. a \<ge> b) (map experience xs)"
  by (simp add: sorted_map sorted_wrt_map)

text \<open>
  C1: every record in the output of the engine satisfies all active filters at once. If
  a name query is set, the record's name contains it, both in lower case; if a mode is
  set, the record's mode matches it (in lower case in \<open>src/src/App.tsx\<close>, identically in
  the second variant); if specialties are selected, the record satisfies the specialty
  criterion of the variant (any selected specialty in \<open>src/src/App.tsx\<close>, all of them in
  the second variant).
\<close>

theorem output_satisfies_all_filters:
  "(filtered D Q = Inr out \<and> d \<in> set out \<longrightarrow>
      (nameQuery Q \<noteq> [] \<longrightarrow> sublist (toLowerCase (nameQuery Q)) (toLowerCase (name d)))
    \<and> (moc Q \<noteq> [] \<longrightarrow> toLowerCase (mode d) = toLowerCase (moc Q))
    \<and> (specs Q \<noteq> [] \<longrightarrow> has_any (specs Q) (speciality d)))
   \<and> (filter_effect D Q = Inr out' \<and> d' \<in> set out' \<longrightarrow>
      (nameQuery Q \<noteq> [] \<longrightarrow> sublist (toLowerCase (nameQuery Q)) (toLowerCase (name d')))
    \<and> (moc Q \<noteq> [] \<longrightarrow> mode d' = moc Q)
    \<and> (specs Q \<noteq> [] \<longrightarrow> has_all (specs Q) (speciality d')))"
proof (intro conjI impI; elim conjE)
  assume a: "filtered D Q = Inr out" "d \<in> set out"
  then have "d \<in> set (filter (selected_any Q) D)"
    by (auto simp: filtered_eq set_ordered split: if_splits)
  then have ok: "name_ok Q d" "mode_ok_ci Q d" "specs Q = [] \<or> has_any (specs Q) (speciality d)"
    by (simp_all add: selected_any_def)
  { assume "nameQuery Q \<noteq> []"
    with ok(1) show "sublist (toLowerCase (nameQuery Q)) (toLowerCase (name d))"
      by (simp add: name_ok_def) }
  { assume "moc Q \<noteq> []"
    with ok(2) show "toLowerCase (mode d) = toLowerCase (moc Q)"
      by (simp add: mode_ok_ci_def) }
  { assume "specs Q \<noteq> []"
    with ok(3) show "has_any (specs Q) (speciality d)" by simp }
next
  assume a: "filter_effect D Q = Inr out'" "d' \<in> set out'"
  then have "d' \<in> set (filter (selected_all Q) D)"
    by (auto simp: filter_effect_eq set_ordered)
  then have ok: "name_ok Q d'" "mode_ok_exact Q d'"
      "specs Q = [] \<or> has_all (specs Q) (speciality d')"
    by (simp_all add: selected_all_def)
  { assume "nameQuery Q \<noteq> []"
    with ok(1) show "sublist (toLowerCase (nameQuery Q)) (toLowerCase (name d'))"
      by (simp add: name_ok_def) }
  { assume "moc Q \<noteq> []"
    with ok(2) show "mode d' = moc Q"
      by (simp add: mode_ok_exact_def) }
  { assume "specs Q \<noteq> []"
    with ok(3) show "has_all (specs Q) (speciality d')" by simp }
qed


theorem output_satisfies_all_filters_witness:
  "filtered [alice, bob, carl]
       \<lparr>nameQuery = ''LIC'', moc = ''video consult'', specs = [''Dentist'', ''ENT''], sort_by = []\<rparr>
     = Inr [alice]
   \<and> sublist (toLowerCase ''LIC'') (toLowerCase (name alice))
   \<and> toLowerCase (mode alice) = toLowerCase ''video consult''
   \<and> has_any [''Dentist'', ''ENT''] (speciality alice)
   \<and> filter_effect [alice, bob, amanda, carl]
       \<lparr>nameQuery = ''b'', moc = ''In Clinic'', specs = [''Dentist'', ''ENT''], sort_by = []\<rparr>
     = Inr [bob]
   \<and> sublist (toLowerCase ''b'') (toLowerCase (name bob))
   \<and> mode bob = ''In Clinic''
   \<and> has_all [''Dentist'', ''ENT''] (speciality bob)"
proof -
  have a: "filtered [alice, bob, carl]
       \<lparr>nameQuery = ''LIC'', moc = ''video consult'', specs = [''Dentist'', ''ENT''], sort_by = []\<rparr>
     = Inr [alice]"
    by code_simp
  have b: "filter_effect [alice, bob, amanda, carl]
       \<lparr>nameQuery = ''b'', moc = ''In Clinic'', specs = [''Dentist'', ''ENT''], sort_by = []\<rparr>
     = Inr [bob]"
    by code_simp
  show ?thesis
    using a b
      output_satisfies_all_filters [of "[alice, bob, carl]"
        "\<lparr>nameQuery = ''LIC'', moc = ''video consult'', specs = [''Dentist'', ''ENT''], sort_by = []\<rparr>"
        "[alice]" alice "[]" alice]
      output_satisfies_all_filters [of "[alice, bob, amanda, carl]"
        "\<lparr>nameQuery = ''b'', moc = ''In Clinic'', specs = [''Dentist'', ''ENT''], sort_by = []\<rparr>"
        "[]" alice "[bob]" bob]
    by simp
qed

lemma ordered_id:
  "sort_by Q \<noteq> ''fees'' \<Longrightarrow> sort_by Q \<noteq> ''experience'' \<Longrightarrow> ordered Q xs = xs"
  by (simp add: ordered_def)

lemma ordered_stable_fees:
  "sort_by Q = ''fees'' \<Longrightarrow>
     filter (\<lambda>d. fees d = k) (ordered Q xs) = filter (\<lambda>d. fees d = k) xs"
  by (simp add: ordered_def sort_key_stable)

lemma ordered_stable_experience:
  assumes "sort_by Q = ''experience''"
  shows "filter (\<lambda>d. experience d = k) (ordered Q xs) = filter (\<lambda>d. experience d = k) xs"
proof -
  have "filter (\<lambda>d. - experience d = - k) (sort_key (\<lambda>d. - experience d) xs)
          = filter (\<lambda>d. - experience d = - k) xs"
    by (rule sort_key_stable)
  with assms show ?thesis by (simp add: ordered_def)
qed

lemma sorted_ordered_fees: "sort_by Q = ''fees'' \<Longrightarrow> sorted (map fees (ordered Q xs))"
  by (simp add: ordered_def)

lemma sorted_ordered_experience:
  "sort_by Q = ''experience'' \<Longrightarrow> sorted_wrt (\<lambda>a b. a \<ge> b) (map experience (ordered Q xs))"
  using sorted_sort_key [of "\<lambda>d. - experience d" xs]
  by (simp add: ordered_def sorted_desc_iff)

lemma selected_any_unsorted: "selected_any (Q\<lparr>sort_by := s\<rparr>) = selected_any Q"
  by (rule ext) (simp add: selected_any_def name_ok_def mode_ok_ci_def)

lemma selected_all_unsorted: "selected_all (Q\<lparr>sort_by := s\<rparr>) = selected_all Q"
  by (rule ext) (simp add: selected_all_def name_ok_def mode_ok_exact_def)

lemma filtered_Inr:
  "filtered D Q = Inr out \<Longrightarrow>
     out = ordered Q (filter (selected_any Q) D)
     \<and> filtered D (Q\<lparr>sort_by := []\<rparr>) = Inr (filter (selected_any Q) D)"
  by (auto simp: filtered_eq selected_any_unsorted ordered_unsorted name_ok_def
      mode_ok_ci_def split: if_splits)

lemma filter_effect_unsorted:
  "filter_effect D (Q\<lparr>sort_by := []\<rparr>) = Inr (filter (selected_all Q) D)"
  by (simp add: filter_effect_eq selected_all_unsorted ordered_unsorted)

text \<open>
  C2: for every doctor list and query state, the output is a subsequence of the list
  when no sort key is present, and when a sort key is present the sort is stable: the
  output is a rearrangement of the unsorted result \<open>r\<close>, itself a subsequence of the
  list, in which the records of any one key value stand in the same order as in \<open>r\<close>.
\<close>

theorem output_order:
  "(filtered D Q = Inr out \<longrightarrow>
      (sort_by Q \<noteq> ''fees'' \<and> sort_by Q \<noteq> ''experience'' \<longrightarrow> subseq out D)
    \<and> (\<exists>r. filtered D (Q\<lparr>sort_by := []\<rparr>) = Inr r \<and> subseq r D \<and> mset out = mset r
          \<and> (sort_by Q = ''fees'' \<longrightarrow>
               (\<forall>k. filter (\<lambda>d. fees d = k) out = filter (\<lambda>d. fees d = k) r))
          \<and> (sort_by Q = ''experience'' \<longrightarrow>
               (\<forall>k. filter (\<lambda>d. experience d = k) out = filter (\<lambda>d. experience d = k) r))))
   \<and> (filter_effect D Q = Inr out' \<longrightarrow>
      (sort_by Q \<noteq> ''fees'' \<and> sort_by Q \<noteq> ''experience'' \<longrightarrow> subseq out' D)
    \<and> (\<exists>r. filter_effect D (Q\<lparr>sort_by := []\<rparr>) = Inr r \<and> subseq r D \<and> mset out' = mset r
          \<and> (sort_by Q = ''fees'' \<longrightarrow>
               (\<forall>k. filter (\<lambda>d. fees d = k) out' = filter (\<lambda>d. fees d = k) r))
          \<and> (sort_by Q = ''experience'' \<longrightarrow>
               (\<forall>k. filter (\<lambda>d. experience d = k) out' = filter (\<lambda>d. experience d = k) r))))"
proof (intro conjI impI)
  assume a: "filtered D Q = Inr out"
  let ?r = "filter (selected_any Q) D"
  from a have o: "out = ordered Q ?r" and u: "filtered D (Q\<lparr>sort_by := []\<rparr>) = Inr ?r"
    using filtered_Inr by blast+
  show "subseq out D" if "sort_by Q \<noteq> ''fees'' \<and> sort_by Q \<noteq> ''experience''"
    using that o by (simp add: ordered_id)
  show "\<exists>r. filtered D (Q\<lparr>sort_by := []\<rparr>) = Inr r \<and> subseq r D \<and> mset out = mset r
          \<and> (sort_by Q = ''fees'' \<longrightarrow>
               (\<forall>k. filter (\<lambda>d. fees d = k) out = filter (\<lambda>d. fees d = k) r))
          \<and> (sort_by Q = ''experience'' \<longrightarrow>
               (\<forall>k. filter (\<lambda>d. experience d = k) out = filter (\<lambda>d. experience d = k) r))"
    using u o
    by (intro exI [of _ ?r])
      (simp add: mset_ordered ordered_stable_fees ordered_stable_experience del: filter_filter)
next
  assume a: "filter_effect D Q = Inr out'"
  let ?r = "filter (selected_all Q) D"
  from a have o: "out' = ordered Q ?r" by (simp add: filter_effect_eq)
  have u: "filter_effect D (Q\<lparr>sort_by := []\<rparr>) = Inr ?r" by (rule filter_effect_unsorted)
  show "subseq out' D" if "sort_by Q \<noteq> ''fees'' \<and> sort_by Q \<noteq> ''experience''"
    using that o by (simp add: ordered_id)
  show "\<exists>r. filter_effect D (Q\<lparr>sort_by := []\<rparr>) = Inr r \<and> subseq r D \<and> mset out' = mset r
          \<and> (sort_by Q = ''fees'' \<longrightarrow>
               (\<forall>k. filter (\<lambda>d. fees d = k) out' = filter (\<lambda>d. fees d = k) r))
          \<and> (sort_by Q = ''experience'' \<longrightarrow>
               (\<forall>k. filter (\<lambda>d. experience d = k) out' = filter (\<lambda>d. experience d = k) r))"
    using u o
    by (intro exI [of _ ?r])
      (simp add: mset_ordered ordered_stable_fees ordered_stable_experience del: filter_filter)
qed

theorem output_order_witness:
  "filtered [alice, bob, amanda, carl] (no_filter ''fees'') = Inr [bob, carl, alice, amanda]
   \<and> filter (\<lambda>d. fees d = 500) [bob, carl, alice, amanda]
       = filter (\<lambda>d. fees d = 500) [alice, bob, amanda, carl]
   \<and> filtered [alice, bob, amanda, carl] (no_filter ''experience'')
       = Inr [bob, amanda, alice, carl]
   \<and> filter (\<lambda>d. experience d = 9) [bob, amanda, alice, carl]
       = filter (\<lambda>d. experience d = 9) [alice, bob, amanda, carl]
   \<and> filtered [alice, bob, amanda, carl] ((no_filter []) \<lparr>nameQuery := ''a''\<rparr>)
       = Inr [alice, amanda, carl]
   \<and> subseq [alice, amanda, carl] [alice, bob, amanda, carl]
   \<and> filter_effect [alice, bob, amanda, carl] (no_filter ''fees'')
       = Inr [bob, carl, alice, amanda]
   \<and> filter_effect [alice, bob, amanda, carl] (no_filter ''experience'')
       = Inr [bob, amanda, alice, carl]
   \<and> filter_effect [alice, bob, amanda, carl] ((no_filter []) \<lparr>moc := ''In Clinic''\<rparr>)
       = Inr [bob, carl]
   \<and> subseq [bob, carl] [alice, bob, amanda, carl]"
proof -
  let ?D = "[alice, bob, amanda, carl]"
  have f: "filtered ?D (no_filter ''fees'') = Inr [bob, carl, alice, amanda]"
    and e: "filtered ?D (no_filter ''experience'') = Inr [bob, amanda, alice, carl]"
    and n: "filtered ?D ((no_filter []) \<lparr>nameQuery := ''a''\<rparr>) = Inr [alice, amanda, carl]"
    and f': "filter_effect ?D (no_filter ''fees'') = Inr [bob, carl, alice, amanda]"
    and e': "filter_effect ?D (no_filter ''experience'') = Inr [bob, amanda, alice, carl]"
    and n': "filter_effect ?D ((no_filter []) \<lparr>moc := ''In Clinic''\<rparr>) = Inr [bob, carl]"
    by code_simp+
  have uf: "filtered ?D ((no_filter ''fees'') \<lparr>sort_by := []\<rparr>) = Inr ?D"
    and ue: "filtered ?D ((no_filter ''experience'') \<lparr>sort_by := []\<rparr>) = Inr ?D"
    by code_simp+
  have sf: "sort_by (no_filter ''fees'') = ''fees''"
    and se: "sort_by (no_filter ''experience'') = ''experience''"
    and sn: "sort_by ((no_filter []) \<lparr>nameQuery := ''a''\<rparr>) \<noteq> ''fees''
             \<and> sort_by ((no_filter []) \<lparr>nameQuery := ''a''\<rparr>) \<noteq> ''experience''"
    and sn': "sort_by ((no_filter []) \<lparr>moc := ''In Clinic''\<rparr>) \<noteq> ''fees''
             \<and> sort_by ((no_filter []) \<lparr>moc := ''In Clinic''\<rparr>) \<noteq> ''experience''"
    by (simp_all add: no_filter_def)
  have "\<exists>r. filtered ?D ((no_filter ''fees'') \<lparr>sort_by := []\<rparr>) = Inr r
          \<and> (\<forall>k. filter (\<lambda>d. fees d = k) [bob, carl, alice, amanda] = filter (\<lambda>d. fees d = k) r)"
    using output_order [of ?D "no_filter ''fees''" "[bob, carl, alice, amanda]" "[]"] f sf
    by blast
  with uf have 1: "filter (\<lambda>d. fees d = 500) [bob, carl, alice, amanda]
       = filter (\<lambda>d. fees d = 500) ?D"
    by auto
  have "\<exists>r. filtered ?D ((no_filter ''experience'') \<lparr>sort_by := []\<rparr>) = Inr r
          \<and> (\<forall>k. filter (\<lambda>d. experience d = k) [bob, amanda, alice, carl]
                 = filter (\<lambda>d. experience d = k) r)"
    using output_order [of ?D "no_filter ''experience''" "[bob, amanda, alice, carl]" "[]"] e se
    by blast
  with ue have 2: "filter (\<lambda>d. experience d = 9) [bob, amanda, alice, carl]
       = filter (\<lambda>d. experience d = 9) ?D"
    by auto
  have 3: "subseq [alice, amanda, carl] ?D"
    using output_order [of ?D "(no_filter []) \<lparr>nameQuery := ''a''\<rparr>" "[alice, amanda, carl]" "[]"]
      n sn
    by blast
  have 4: "subseq [bob, carl] ?D"
    using output_order [of ?D "(no_filter []) \<lparr>moc := ''In Clinic''\<rparr>" "[]" "[bob, carl]"]
      n' sn'
    by blast
  from f e n f' e' n' 1 2 3 4 show ?thesis by blast
qed

text \<open>
  C3: for every doctor list, with the sort key \<open>fees\<close> the fees of the output never
  decrease along the list, and with the sort key \<open>experience\<close> the experience values
  never increase.
\<close>

theorem sorted_output:
  "(filtered D Q = Inr out \<longrightarrow>
      (sort_by Q = ''fees'' \<longrightarrow> sorted (map fees out))
    \<and> (sort_by Q = ''experience'' \<longrightarrow> sorted_wrt (\<lambda>a b. a \<ge> b) (map experience out)))
   \<and> (filter_effect D Q = Inr out' \<longrightarrow>
      (sort_by Q = ''fees'' \<longrightarrow> sorted (map fees out'))
    \<and> (sort_by Q = ''experience'' \<longrightarrow> sorted_wrt (\<lambda>a b. a \<ge> b) (map experience out')))"
proof (intro conjI impI)
  assume "filtered D Q = Inr out"
  then have o: "out = ordered Q (filter (selected_any Q) D)"
    using filtered_Inr by blast
  show "sorted (map fees out)" if "sort_by Q = ''fees''"
    using that o by (simp add: sorted_ordered_fees)
  show "sorted_wrt (\<lambda>a b. a \<ge> b) (map experience out)" if "sort_by Q = ''experience''"
    using that o by (simp add: sorted_ordered_experience)
next
  assume "filter_effect D Q = Inr out'"
  then have o: "out' = ordered Q (filter (selected_all Q) D)"
    by (simp add: filter_effect_eq)
  show "sorted (map fees out')" if "sort_by Q = ''fees''"
    using that o by (simp add: sorted_ordered_fees)
  show "sorted_wrt (\<lambda>a b. a \<ge> b) (map experience out')" if "sort_by Q = ''experience''"
    using that o by (simp add: sorted_ordered_experience)
qed


theorem sorted_output_witness:
  "filtered [alice, bob, amanda, carl] (no_filter ''fees'') = Inr [bob, carl, alice, amanda]
   \<and> sorted (map fees [bob, carl, alice, amanda])
   \<and> filtered [alice, bob, amanda, carl] (no_filter ''experience'')
       = Inr [bob, amanda, alice, carl]
   \<and> sorted_wrt (\<lambda>a b. a \<ge> b) (map experience [bob, amanda, alice, carl])
   \<and> filter_effect [alice, bob, amanda, carl] (no_filter ''fees'')
       = Inr [bob, carl, alice, amanda]
   \<and> filter_effect [alice, bob, amanda, carl] (no_filter ''experience'')
       = Inr [bob, amanda, alice, carl]"
proof -
  let ?D = "[alice, bob, amanda, carl]"
  have f: "filtered ?D (no_filter ''fees'') = Inr [bob, carl, alice, amanda]"
    and e: "filtered ?D (no_filter ''experience'') = Inr [bob, amanda, alice, carl]"
    and f': "filter_effect ?D (no_filter ''fees'') = Inr [bob, carl, alice, amanda]"
    and e': "filter_effect ?D (no_filter ''experience'') = Inr [bob, amanda, alice, carl]"
    by code_simp+
  have sf: "sort_by (no_filter ''fees'') = ''fees''"
    and se: "sort_by (no_filter ''experience'') = ''experience''"
    by (simp_all add: no_filter_def)
  have 1: "sorted (map fees [bob, carl, alice, amanda])"
    using sorted_output [of ?D "no_filter ''fees''" "[bob, carl, alice, amanda]"
        "[bob, carl, alice, amanda]"] f f' sf
    by blast
  have 2: "sorted_wrt (\<lambda>a b. a \<ge> b) (map experience [bob, amanda, alice, carl])"
    using sorted_output [of ?D "no_filter ''experience''" "[bob, amanda, alice, carl]"
        "[bob, amanda, alice, carl]"] e e' se
    by blast
  from f e f' e' 1 2 show ?thesis by blast
qed

lemma insort_key_map_inv:
  "(\<And>x. k (g x) = k x) \<Longrightarrow> insort_key k (g x) (map g ys) = map g (insort_key k x ys)"
  by (induction ys) simp_all

lemma sort_key_map_inv:
  "(\<And>x. k (g x) = k x) \<Longrightarrow> sort_key k (map g xs) = map g (sort_key k xs)"
  by (induction xs) (simp_all add: insort_key_map_inv)

lemma ordered_map_inv:
  assumes "\<And>x. fees (g x) = fees x" and "\<And>x. experience (g x) = experience x"
  shows "ordered Q (map g xs) = map g (ordered Q xs)"
  using assms by (simp add: ordered_def sort_key_map_inv)

lemma selected_any_mode_update:
  "moc Q = [] \<Longrightarrow> selected_any Q (d\<lparr>mode := m\<rparr>) = selected_any Q d"
  by (simp add: selected_any_def name_ok_def mode_ok_ci_def)

lemma selected_all_mode_update:
  "moc Q = [] \<Longrightarrow> selected_all Q (d\<lparr>mode := m\<rparr>) = selected_all Q d"
  by (simp add: selected_all_def name_ok_def mode_ok_exact_def)

lemma filtered_mode_update:
  assumes "moc Q = []"
  shows "filtered (map (\<lambda>d. d\<lparr>mode := f d\<rparr>) D) Q
           = map_sum id (map (\<lambda>d. d\<lparr>mode := f d\<rparr>)) (filtered D Q)"
proof -
  let ?g = "\<lambda>d. d\<lparr>mode := f d\<rparr>"
  have s: "filter (selected_any Q) (map ?g D) = map ?g (filter (selected_any Q) D)"
    using assms by (simp add: filter_map comp_def selected_any_mode_update)
  have p: "filter (\<lambda>d. name_ok Q d \<and> mode_ok_ci Q d) (map ?g D)
             = map ?g (filter (\<lambda>d. name_ok Q d \<and> mode_ok_ci Q d) D)"
    using assms by (simp add: filter_map comp_def name_ok_def mode_ok_ci_def)
  have o: "ordered Q (map ?g xs) = map ?g (ordered Q xs)" for xs
    by (rule ordered_map_inv) simp_all
  show ?thesis
    by (auto simp: filtered_eq s p o list_all_iff)
qed

lemma filter_effect_mode_update:
  assumes "moc Q = []"
  shows "filter_effect (map (\<lambda>d. d\<lparr>mode := f d\<rparr>) D) Q
           = map_sum id (map (\<lambda>d. d\<lparr>mode := f d\<rparr>)) (filter_effect D Q)"
proof -
  let ?g = "\<lambda>d. d\<lparr>mode := f d\<rparr>"
  have s: "filter (selected_all Q) (map ?g D) = map ?g (filter (selected_all Q) D)"
    using assms by (simp add: filter_map comp_def selected_all_mode_update)
  have o: "ordered Q (map ?g xs) = map ?g (ordered Q xs)" for xs
    by (rule ordered_map_inv) simp_all
  show ?thesis
    by (simp add: filter_effect_eq s o)
qed

lemma ordered_moc_update: "ordered (Q\<lparr>moc := m\<rparr>) xs = ordered Q xs"
  by (simp add: ordered_def)

lemma filtered_mode_first:
  assumes "moc Q \<noteq> []"
  shows "filtered D Q
           = filtered (filter (\<lambda>d. toLowerCase (mode d) = toLowerCase (moc Q)) D)
               (Q\<lparr>moc := []\<rparr>)"
proof -
  let ?M = "\<lambda>d. toLowerCase (mode d) = toLowerCase (moc Q)"
  let ?Q = "Q\<lparr>moc := []\<rparr>"
  have sel: "selected_any Q d \<longleftrightarrow> ?M d \<and> selected_any ?Q d" for d
    using assms by (auto simp: selected_any_def name_ok_def mode_ok_ci_def)
  have pre: "name_ok Q d \<and> mode_ok_ci Q d \<longleftrightarrow> ?M d \<and> name_ok ?Q d \<and> mode_ok_ci ?Q d" for d
    using assms by (auto simp: name_ok_def mode_ok_ci_def)
  have "filter (selected_any ?Q) (filter ?M D) = filter (\<lambda>d. ?M d \<and> selected_any ?Q d) D"
    by simp
  also have "\<dots> = filter (selected_any Q) D"
    by (rule filter_cong) (simp_all add: sel)
  finally have s: "filter (selected_any ?Q) (filter ?M D) = filter (selected_any Q) D" .
  have "filter (\<lambda>d. name_ok ?Q d \<and> mode_ok_ci ?Q d) (filter ?M D)
          = filter (\<lambda>d. ?M d \<and> name_ok ?Q d \<and> mode_ok_ci ?Q d) D"
    by simp
  also have "\<dots> = filter (\<lambda>d. name_ok Q d \<and> mode_ok_ci Q d) D"
    by (rule filter_cong) (simp_all add: pre)
  finally have p: "filter (\<lambda>d. name_ok ?Q d \<and> mode_ok_ci ?Q d) (filter ?M D)
          = filter (\<lambda>d. name_ok Q d \<and> mode_ok_ci Q d) D" .
  have "filtered (filter ?M D) ?Q =
     (if specs ?Q \<noteq> [] \<and> \<not> list_all (\<lambda>d. isArray (speciality d))
                                (filter (\<lambda>d. name_ok ?Q d \<and> mode_ok_ci ?Q d) (filter ?M D))
      then Inl TypeError
      else Inr (ordered ?Q (filter (selected_any ?Q) (filter ?M D))))"
    by (rule filtered_eq)
  also have "\<dots> = filtered D Q"
    unfolding s p ordered_moc_update by (simp add: filtered_eq)
  finally show ?thesis by simp
qed

lemma filter_effect_mode_first:
  assumes "moc Q \<noteq> []"
  shows "filter_effect D Q
           = filter_effect (filter (\<lambda>d. mode d = moc Q) D) (Q\<lparr>moc := []\<rparr>)"
proof -
  let ?M = "\<lambda>d. mode d = moc Q"
  let ?Q = "Q\<lparr>moc := []\<rparr>"
  have sel: "selected_all Q d \<longleftrightarrow> ?M d \<and> selected_all ?Q d" for d
    using assms by (auto simp: selected_all_def name_ok_def mode_ok_exact_def)
  have "filter (selected_all ?Q) (filter ?M D) = filter (\<lambda>d. ?M d \<and> selected_all ?Q d) D"
    by simp
  also have "\<dots> = filter (selected_all Q) D"
    by (rule filter_cong) (simp_all add: sel)
  finally have s: "filter (selected_all ?Q) (filter ?M D) = filter (selected_all Q) D" .
  have "filter_effect (filter ?M D) ?Q
          = Inr (ordered ?Q (filter (selected_all ?Q) (filter ?M D)))"
    by (rule filter_effect_eq)
  also have "\<dots> = filter_effect D Q"
    unfolding s ordered_moc_update by (simp add: filter_effect_eq)
  finally show ?thesis by simp
qed

lemma filtered_mode_only:
  "m \<noteq> [] \<Longrightarrow> filtered D ((no_filter []) \<lparr>moc := m\<rparr>)
     = Inr (filter (\<lambda>d. toLowerCase (mode d) = toLowerCase m) D)"
  by (simp add: filtered_eq selected_any_def [abs_def] name_ok_def mode_ok_ci_def
      [abs_def] ordered_def no_filter_def)

lemma filter_effect_mode_only:
  "m \<noteq> [] \<Longrightarrow> filter_effect D ((no_filter []) \<lparr>moc := m\<rparr>) = Inr (filter (\<lambda>d. mode d = m) D)"
  by (simp add: filter_effect_eq selected_all_def [abs_def] name_ok_def mode_ok_exact_def
      [abs_def] ordered_def no_filter_def)

text \<open>
  C5, as amended: in \<open>src/src/App.tsx\<close>, for every doctor list and non-empty mode
  selection \<open>m\<close>, the mode filter keeps exactly the records whose mode equals \<open>m\<close> when
  both are put in lower case; in the second variant it keeps exactly the records whose
  mode is identical to \<open>m\<close>. This holds alone and beside any other criteria. In both
  variants the mode filter is skipped when no mode is selected: the modes of the records
  then have no effect on the output.
\<close>

theorem mode_filter:
  "(m \<noteq> [] \<longrightarrow> filtered D ((no_filter []) \<lparr>moc := m\<rparr>)
        = Inr (filter (\<lambda>d. toLowerCase (mode d) = toLowerCase m) D))
   \<and> (moc Q \<noteq> [] \<longrightarrow> filtered D Q
        = filtered (filter (\<lambda>d. toLowerCase (mode d) = toLowerCase (moc Q)) D) (Q\<lparr>moc := []\<rparr>))
   \<and> (moc Q = [] \<longrightarrow> filtered (map (\<lambda>d. d\<lparr>mode := f d\<rparr>) D) Q
        = map_sum id (map (\<lambda>d. d\<lparr>mode := f d\<rparr>)) (filtered D Q))
   \<and> (m \<noteq> [] \<longrightarrow> filter_effect D ((no_filter []) \<lparr>moc := m\<rparr>)
        = Inr (filter (\<lambda>d. mode d = m) D))
   \<and> (moc Q \<noteq> [] \<longrightarrow> filter_effect D Q
        = filter_effect (filter (\<lambda>d. mode d = moc Q) D) (Q\<lparr>moc := []\<rparr>))
   \<and> (moc Q = [] \<longrightarrow> filter_effect (map (\<lambda>d. d\<lparr>mode := f d\<rparr>) D) Q
        = map_sum id (map (\<lambda>d. d\<lparr>mode := f d\<rparr>)) (filter_effect D Q))"
proof (intro conjI impI)
  show "filtered D ((no_filter []) \<lparr>moc := m\<rparr>)
          = Inr (filter (\<lambda>d. toLowerCase (mode d) = toLowerCase m) D)" if "m \<noteq> []"
    using that by (rule filtered_mode_only)
  show "filtered D Q
          = filtered (filter (\<lambda>d. toLowerCase (mode d) = toLowerCase (moc Q)) D) (Q\<lparr>moc := []\<rparr>)"
    if "moc Q \<noteq> []"
    using that by (rule filtered_mode_first)
  show "filtered (map (\<lambda>d. d\<lparr>mode := f d\<rparr>) D) Q
          = map_sum id (map (\<lambda>d. d\<lparr>mode := f d\<rparr>)) (filtered D Q)" if "moc Q = []"
    using that by (rule filtered_mode_update)
  show "filter_effect D ((no_filter []) \<lparr>moc := m\<rparr>) = Inr (filter (\<lambda>d. mode d = m) D)"
    if "m \<noteq> []"
    using that by (rule filter_effect_mode_only)
  show "filter_effect D Q = filter_effect (filter (\<lambda>d. mode d = moc Q) D) (Q\<lparr>moc := []\<rparr>)"
    if "moc Q \<noteq> []"
    using that by (rule filter_effect_mode_first)
  show "filter_effect (map (\<lambda>d. d\<lparr>mode := f d\<rparr>) D) Q
          = map_sum id (map (\<lambda>d. d\<lparr>mode := f d\<rparr>)) (filter_effect D Q)" if "moc Q = []"
    using that by (rule filter_effect_mode_update)
qed

text \<open>
  Counterexample to C5 as stated: the second variant drops a record whose mode is \<open>video consult\<close> when the selection is
  \<open>Video Consult\<close>, although the two are equal in lower case.
\<close>

theorem mode_filter_counterexample:
  "toLowerCase (mode amanda) = toLowerCase ''Video Consult''
   \<and> filter_effect [amanda] ((no_filter []) \<lparr>moc := ''Video Consult''\<rparr>) = Inr []"
  by code_simp


theorem mode_filter_witness:
  "filtered [alice, bob, amanda, carl] ((no_filter []) \<lparr>moc := ''video consult''\<rparr>)
     = Inr [alice, amanda]
   \<and> filtered [alice, bob, amanda, carl]
       \<lparr>nameQuery = ''a'', moc = ''VIDEO CONSULT'', specs = [], sort_by = ''experience''\<rparr>
     = filtered [alice, amanda]
       \<lparr>nameQuery = ''a'', moc = [], specs = [], sort_by = ''experience''\<rparr>
   \<and> filtered (map (\<lambda>d. d\<lparr>mode := []\<rparr>) [alice, bob]) (no_filter ''fees'')
     = Inr (map (\<lambda>d. d\<lparr>mode := []\<rparr>) [bob, alice])
   \<and> filter_effect [alice, bob, amanda, carl] ((no_filter []) \<lparr>moc := ''Video Consult''\<rparr>)
     = Inr [alice]
   \<and> filter_effect [alice, bob, amanda, carl]
       \<lparr>nameQuery = ''a'', moc = ''In Clinic'', specs = [], sort_by = ''experience''\<rparr>
     = filter_effect [bob, carl]
       \<lparr>nameQuery = ''a'', moc = [], specs = [], sort_by = ''experience''\<rparr>
   \<and> filter_effect (map (\<lambda>d. d\<lparr>mode := []\<rparr>) [alice, bob]) (no_filter ''fees'')
     = Inr (map (\<lambda>d. d\<lparr>mode := []\<rparr>) [bob, alice])"
proof -
  let ?D = "[alice, bob, amanda, carl]"
  let ?Qa = "\<lparr>nameQuery = ''a'', moc = ''VIDEO CONSULT'', specs = [], sort_by = ''experience''\<rparr>"
  let ?Qb = "\<lparr>nameQuery = ''a'', moc = ''In Clinic'', specs = [], sort_by = ''experience''\<rparr>"
  have ci: "filter (\<lambda>d. toLowerCase (mode d) = toLowerCase ''video consult'') ?D = [alice, amanda]"
    and ci': "filter (\<lambda>d. toLowerCase (mode d) = toLowerCase (moc ?Qa)) ?D = [alice, amanda]"
    and ex: "filter (\<lambda>d. mode d = ''Video Consult'') ?D = [alice]"
    and ex': "filter (\<lambda>d. mode d = moc ?Qb) ?D = [bob, carl]"
    by code_simp+
  have s: "filtered [alice, bob] (no_filter ''fees'') = Inr [bob, alice]"
    and s': "filter_effect [alice, bob] (no_filter ''fees'') = Inr [bob, alice]"
    by code_simp+
  have 1: "filtered ?D ((no_filter []) \<lparr>moc := ''video consult''\<rparr>) = Inr [alice, amanda]"
    using mode_filter [of "''video consult''" ?D] ci by simp
  have 2: "filtered ?D ?Qa = filtered [alice, amanda] (?Qa\<lparr>moc := []\<rparr>)"
    using mode_filter [of _ ?D ?Qa] ci' by simp
  have 3: "filtered (map (\<lambda>d. d\<lparr>mode := []\<rparr>) [alice, bob]) (no_filter ''fees'')
     = Inr (map (\<lambda>d. d\<lparr>mode := []\<rparr>) [bob, alice])"
    using mode_filter [of _ "[alice, bob]" "no_filter ''fees''" "\<lambda>d. []"] s
    by (simp add: no_filter_def)
  have 4: "filter_effect ?D ((no_filter []) \<lparr>moc := ''Video Consult''\<rparr>) = Inr [alice]"
    using mode_filter [of "''Video Consult''" ?D] ex by simp
  have 5: "filter_effect ?D ?Qb = filter_effect [bob, carl] (?Qb\<lparr>moc := []\<rparr>)"
    using mode_filter [of _ ?D ?Qb] ex' by simp
  have 6: "filter_effect (map (\<lambda>d. d\<lparr>mode := []\<rparr>) [alice, bob]) (no_filter ''fees'')
     = Inr (map (\<lambda>d. d\<lparr>mode := []\<rparr>) [bob, alice])"
    using mode_filter [of _ "[alice, bob]" "no_filter ''fees''" "\<lambda>d. []"] s'
    by (simp add: no_filter_def)
  from 1 2 3 4 5 6 show ?thesis by simp
qed

text \<open>
  C4: the two implementations disagree on the specialty criterion. The callback of
  \<open>src/src/App.tsx\<close> asks for any selected specialty, the callback of the second
  variant for all of them; a doctor whose speciality is exactly \<open>["ENT"]\<close> matches the
  selection of \<open>Dentist\<close> and \<open>ENT\<close> under the first reading and not under the second,
  and the two engines return different lists for it.
\<close>

theorem specialty_semantics_disagree:
  "(isArray (speciality d) \<longrightarrow> speciality_some sp d = Inr (has_any sp (speciality d)))
   \<and> speciality_every sp d = Inr (has_all sp (speciality d))
   \<and> has_any [''Dentist'', ''ENT''] (IsArray [''ENT''])
   \<and> \<not> has_all [''Dentist'', ''ENT''] (IsArray [''ENT''])
   \<and> speciality alice = IsArray [''ENT'']
   \<and> filtered [alice] ((no_filter []) \<lparr>specs := [''Dentist'', ''ENT'']\<rparr>) = Inr [alice]
   \<and> filter_effect [alice] ((no_filter []) \<lparr>specs := [''Dentist'', ''ENT'']\<rparr>) = Inr []"
proof -
  have "has_any [''Dentist'', ''ENT''] (IsArray [''ENT''])
   \<and> \<not> has_all [''Dentist'', ''ENT''] (IsArray [''ENT''])
   \<and> speciality alice = IsArray [''ENT'']
   \<and> filtered [alice] ((no_filter []) \<lparr>specs := [''Dentist'', ''ENT'']\<rparr>) = Inr [alice]
   \<and> filter_effect [alice] ((no_filter []) \<lparr>specs := [''Dentist'', ''ENT'']\<rparr>) = Inr []"
    by code_simp
  then show ?thesis
    by (simp add: speciality_some_eq speciality_every_eq)
qed

theorem specialty_semantics_disagree_witness:
  "speciality_some [''Dentist'', ''ENT''] alice = Inr True
   \<and> speciality_every [''Dentist'', ''ENT''] alice = Inr False
   \<and> filtered [alice] ((no_filter []) \<lparr>specs := [''Dentist'', ''ENT'']\<rparr>) = Inr [alice]
   \<and> filter_effect [alice] ((no_filter []) \<lparr>specs := [''Dentist'', ''ENT'']\<rparr>) = Inr []"
proof -
  have a: "isArray (speciality alice)" "has_any [''Dentist'', ''ENT''] (speciality alice)"
    "\<not> has_all [''Dentist'', ''ENT''] (speciality alice)"
    by code_simp+
  show ?thesis
    using specialty_semantics_disagree [of alice "[''Dentist'', ''ENT'']"] a by simp
qed

lemma selected_all_isArray:
  "specs Q \<noteq> [] \<Longrightarrow> selected_all Q d \<Longrightarrow> isArray (speciality d)"
  by (cases "speciality d") (simp_all add: selected_all_def)

lemma selected_any_isArray:
  "specs Q \<noteq> [] \<Longrightarrow> selected_any Q d \<Longrightarrow> isArray (speciality d)"
  by (cases "speciality d") (simp_all add: selected_any_def)

lemma filtered_total:
  "list_all (\<lambda>d. isArray (speciality d)) D \<Longrightarrow>
     filtered D Q = Inr (ordered Q (filter (selected_any Q) D))"
  by (simp add: filtered_eq list_all_iff)

text \<open>
  The second variant tests \<open>Array.isArray(d.speciality)\<close> first: its evaluation always
  returns a list, and with a non-empty specialty selection a record whose speciality is
  absent or not a list is never in it.
\<close>

lemma filter_effect_guarded:
  "\<exists>out. filter_effect D Q = Inr out
      \<and> (specs Q \<noteq> [] \<and> \<not> isArray (speciality d) \<longrightarrow> d \<notin> set out)"
  using selected_all_isArray [of Q d]
  by (auto simp: filter_effect_eq set_ordered)

text \<open>
  \<open>src/src/App.tsx\<close> has no such test: with a non-empty specialty selection it fails
  as soon as a record that passes the name and mode filters has a speciality that is
  absent or not a list.
\<close>

lemma filtered_unguarded:
  assumes "specs Q \<noteq> []" and "d \<in> set D" and "name_ok Q d" and "mode_ok_ci Q d"
    and "\<not> isArray (speciality d)"
  shows "filtered D Q = Inl TypeError"
  using assms by (auto simp: filtered_eq list_all_iff)

text \<open>
  C6: a record whose speciality is absent or not a list is to be treated as never
  matching a non-empty specialty selection, and the evaluation is never to fail.
  \<open>src/src/App.tsx\<close> breaks this: on the list of the one record \<open>amanda\<close>, which has
  no speciality, and the selection of \<open>ENT\<close>, \<open>filtered\<close> fails with a \<open>TypeError\<close>,
  where the second variant returns the empty list.
\<close>

theorem malformed_speciality_type_error:
  "speciality amanda = Missing
   \<and> filtered [amanda] ((no_filter []) \<lparr>specs := [''ENT'']\<rparr>) = Inl TypeError
   \<and> filter_effect [amanda] ((no_filter []) \<lparr>specs := [''ENT'']\<rparr>) = Inr []"
  by code_simp

text \<open>
  C7: for every doctor list and name query, the autocomplete engine returns at most
  three records; the name of every returned record contains the query, both in lower
  case; for a non-empty query the returned records are the first three such matches in
  list order; and an empty query yields no suggestion. \<open>handleSearch\<close> of the second
  variant computes the same suggestions.
\<close>

theorem autocomplete:
  "length (suggestions D q) \<le> 3
   \<and> (\<forall>d\<in>set (suggestions D q). sublist (toLowerCase q) (toLowerCase (name d)))
   \<and> (q \<noteq> [] \<longrightarrow> suggestions D q
        = take 3 (filter (\<lambda>d. sublist (toLowerCase q) (toLowerCase (name d))) D))
   \<and> suggestions D [] = []
   \<and> handleSearch D q = (q, suggestions D q)"
  by (auto simp: suggestions_def handleSearch_def name_matches_sublist dest: in_set_takeD)

theorem autocomplete_witness:
  "suggestions [bob, alice, amanda, carl, alice] ''A'' = [alice, amanda, carl]
   \<and> length (suggestions [bob, alice, amanda, carl, alice] ''A'') \<le> 3
   \<and> sublist (toLowerCase ''A'') (toLowerCase (name carl))
   \<and> suggestions [bob, alice, amanda, carl, alice] ''A''
       = take 3 (filter (\<lambda>d. sublist (toLowerCase ''A'') (toLowerCase (name d)))
           [bob, alice, amanda, carl, alice])
   \<and> handleSearch [bob, alice, amanda, carl, alice] ''A''
       = (''A'', suggestions [bob, alice, amanda, carl, alice] ''A'')"
proof -
  let ?D = "[bob, alice, amanda, carl, alice]"
  note t = autocomplete [of ?D "''A''"]
  have e: "suggestions ?D ''A'' = [alice, amanda, carl]"
    by code_simp
  have ne: "''A'' \<noteq> []" by simp
  have 1: "length (suggestions ?D ''A'') \<le> 3"
    using t by (rule conjunct1)
  have 2: "\<forall>d\<in>set (suggestions ?D ''A''). sublist (toLowerCase ''A'') (toLowerCase (name d))"
    using t by (elim conjE)
  have "carl \<in> set (suggestions ?D ''A'')"
    unfolding e by simp
  with 2 have 3: "sublist (toLowerCase ''A'') (toLowerCase (name carl))"
    by (rule bspec)
  have 4: "suggestions ?D ''A''
       = take 3 (filter (\<lambda>d. sublist (toLowerCase ''A'') (toLowerCase (name d))) ?D)"
    using t ne by (elim conjE impE)
  have 5: "handleSearch ?D ''A'' = (''A'', suggestions ?D ''A'')"
    using t by (elim conjE)
  show ?thesis
    by (intro conjI) (rule e 1 3 4 5)+
qed

lemma empty_not_in_SPECIALTIES: "[] \<notin> set SPECIALTIES"
  by (simp add: SPECIALTIES_def)

lemma from_vocabulary_no_empty:
  "from_vocabulary v \<Longrightarrow> isArray v \<and> \<not> has_any [[]] v \<and> \<not> has_all [[]] v"
  using empty_not_in_SPECIALTIES by (cases v) auto

text \<open>
  C10: when the URL has a specialty parameter that is present and empty, the parsed
  selection is the one-element list of the empty string and not the empty list, so the
  specialty filter is active; as no term of the vocabulary is the empty string, every
  doctor whose speciality is a list of vocabulary terms is filtered out. Without the
  parameter the selection is empty and the filter is skipped.
\<close>

theorem empty_specialty_parameter:
  "(params_get searchParams ''specialty'' = Some [] \<longrightarrow>
       specs_of searchParams = [[]]
     \<and> specs (query_of_params searchParams) \<noteq> []
     \<and> specs (query_of_state q searchParams) \<noteq> []
     \<and> (list_all (\<lambda>d. from_vocabulary (speciality d)) D \<longrightarrow>
          filtered D (query_of_params searchParams) = Inr []
        \<and> filter_effect D (query_of_state q searchParams) = Inr []))
   \<and> (params_get searchParams ''specialty'' = None \<longrightarrow> specs_of searchParams = [])"
proof (intro conjI impI)
  assume p: "params_get searchParams ''specialty'' = Some []"
  then show s: "specs_of searchParams = [[]]" by (simp add: specs_of_def)
  then show "specs (query_of_params searchParams) \<noteq> []"
    and "specs (query_of_state q searchParams) \<noteq> []"
    by (simp_all add: query_of_params_def query_of_state_def)
  assume v: "list_all (\<lambda>d. from_vocabulary (speciality d)) D"
  then have arr: "list_all (\<lambda>d. isArray (speciality d)) D"
    using from_vocabulary_no_empty by (auto simp: list_all_iff)
  have "filter (selected_any (query_of_params searchParams)) D = []"
    using v s from_vocabulary_no_empty
    by (auto simp: filter_empty_conv list_all_iff selected_any_def query_of_params_def)
  then show "filtered D (query_of_params searchParams) = Inr []"
    using arr by (simp add: filtered_total ordered_def)
  have "filter (selected_all (query_of_state q searchParams)) D = []"
    using v s from_vocabulary_no_empty
    by (auto simp: filter_empty_conv list_all_iff selected_all_def query_of_state_def)
  then show "filter_effect D (query_of_state q searchParams) = Inr []"
    by (simp add: filter_effect_eq ordered_def)
next
  assume "params_get searchParams ''specialty'' = None"
  then show "specs_of searchParams = []" by (simp add: specs_of_def)
qed

theorem empty_specialty_parameter_witness:
  "specs_of [(''moc'', ''In Clinic''), (''specialty'', [])] = [[]]
   \<and> filtered [alice, bob, carl] (query_of_params [(''moc'', ''In Clinic''), (''specialty'', [])])
       = Inr []
   \<and> filter_effect [alice, bob, carl]
       (query_of_state [] [(''moc'', ''In Clinic''), (''specialty'', [])]) = Inr []
   \<and> specs_of [(''moc'', ''In Clinic'')] = []"
proof -
  have p: "params_get [(''moc'', ''In Clinic''), (''specialty'', [])] ''specialty'' = Some []"
    and n: "params_get [(''moc'', ''In Clinic'')] ''specialty'' = None"
    and v: "list_all (\<lambda>d. from_vocabulary (speciality d)) [alice, bob, carl]"
    by code_simp+
  show ?thesis
    using empty_specialty_parameter [of "[(''moc'', ''In Clinic''), (''specialty'', [])]" "[]"
        "[alice, bob, carl]"]
      empty_specialty_parameter [of "[(''moc'', ''In Clinic'')]" "[]" "[]"] p n v
    by simp
qed

end
